theory Spec2Isabelle
  imports Main "HOL-Library.Word"
begin

section \<open>The ARM64 Image builder of \<open>make_image.py\<close>\<close>

text \<open>
  The script reads a flat kernel binary, packs a 64-byte header with
  \<open>struct.pack('<IIQQQQQQI4x', ...)\<close>, writes header and payload to the output path
  and prints a report. The model below keeps Python's integers as \<open>int\<close>, bytes as
  8-bit words, the file system and standard output as an explicit world that every
  operation takes and returns, and every exception as a value.
\<close>

subsection \<open>Bytes, errors and the world\<close>

type_synonym byte = "8 word"
type_synonym path = string

datatype errno = ENOENT | EACCES | ENOSPC

datatype error =
    OSError errno     \<comment> \<open>raised by \<open>open\<close> and \<open>os.path.getsize\<close>\<close>
  | StructError       \<comment> \<open>\<open>struct.error\<close>, raised by \<open>struct.pack\<close>\<close>
  | AssertionError    \<comment> \<open>the \<open>assert len(header) == 64\<close>\<close>
  | IndexError        \<comment> \<open>\<open>sys.argv[0]\<close> on an empty argument vector\<close>

text \<open>Every access to the file system is logged, so that "no file is touched" can be stated.\<close>

datatype fs_op =
    OpenRead path
  | OpenWrite path
  | WriteBytes path "byte list"
  | Stat path

record world =
  files :: "path \<rightharpoonup> byte list"   \<comment> \<open>the regular files and their contents\<close>
  unreadable :: "path set"          \<comment> \<open>paths that \<open>open(p, 'rb')\<close> is denied on\<close>
  unwritable :: "path set"          \<comment> \<open>paths that \<open>open(p, 'wb')\<close> cannot create or truncate\<close>
  max_size :: "path \<rightharpoonup> nat"        \<comment> \<open>how large the file at a path can grow before its device is full\<close>
  stdout :: "string list"           \<comment> \<open>the lines printed so far\<close>
  fs_ops :: "fs_op list"            \<comment> \<open>the file-system calls made so far\<close>

definition log_op :: "fs_op \<Rightarrow> world \<Rightarrow> world" where
  "log_op ev w = w\<lparr>fs_ops := fs_ops w @ [ev]\<rparr>"

text \<open>\<open>with open(p, 'rb') as f: f.read()\<close>: the whole content, or an \<open>OSError\<close>.\<close>

definition read_file :: "path \<Rightarrow> world \<Rightarrow> (error + byte list) \<times> world" where
  "read_file p w =
     (case files w p of
        None \<Rightarrow> (Inl (OSError ENOENT), log_op (OpenRead p) w)
      | Some bs \<Rightarrow>
          if p \<in> unreadable w then (Inl (OSError EACCES), log_op (OpenRead p) w)
          else (Inr bs, log_op (OpenRead p) w))"

text \<open>\<open>open(p, 'wb')\<close> creates the file or truncates it to length zero.\<close>

definition open_wb :: "path \<Rightarrow> world \<Rightarrow> (error + unit) \<times> world" where
  "open_wb p w =
     (if p \<in> unwritable w then (Inl (OSError EACCES), log_op (OpenWrite p) w)
      else (Inr (), (log_op (OpenWrite p) w)\<lparr>files := (files w)(p \<mapsto> [])\<rparr>))"

text \<open>
  \<open>f.write(bs)\<close> on a file opened by \<open>open_wb\<close> appends at the file position. Where
  the device has a limit (\<open>max_size\<close>; 0 for \<open>/dev/full\<close>, the free space for a disk
  that is nearly full) and the bytes do not all fit, the part that fits is written and
  the write raises \<open>OSError\<close>. Python buffers the writes, so the error may surface at a
  later write or when the \<open>with\<close> block closes the file; in every case it leaves the
  block as \<open>OSError\<close> before anything is printed and the file holds the bytes that fit,
  which is what the model returns.
\<close>

definition write_file :: "path \<Rightarrow> byte list \<Rightarrow> world \<Rightarrow> (error + unit) \<times> world" where
  "write_file p bs w =
     (let old = (case files w p of None \<Rightarrow> [] | Some old \<Rightarrow> old);
          room = (case max_size w p of None \<Rightarrow> length bs | Some m \<Rightarrow> m - length old)
      in if length bs \<le> room
         then (Inr (), (log_op (WriteBytes p bs) w)\<lparr>files := (files w)(p \<mapsto> old @ bs)\<rparr>)
         else (Inl (OSError ENOSPC),
               (log_op (WriteBytes p bs) w)\<lparr>files := (files w)(p \<mapsto> old @ take room bs)\<rparr>))"

text \<open>Whether a file of \<open>n\<close> bytes fits at a path.\<close>

definition has_room :: "path \<Rightarrow> nat \<Rightarrow> world \<Rightarrow> bool" where
  "has_room p n w = (case max_size w p of None \<Rightarrow> True | Some m \<Rightarrow> n \<le> m)"

definition getsize :: "path \<Rightarrow> world \<Rightarrow> (error + nat) \<times> world" where
  "getsize p w =
     (case files w p of
        None \<Rightarrow> (Inl (OSError ENOENT), log_op (Stat p) w)
      | Some bs \<Rightarrow> (Inr (length bs), log_op (Stat p) w))"

definition print_line :: "string \<Rightarrow> world \<Rightarrow> world" where
  "print_line s w = w\<lparr>stdout := stdout w @ [s]\<rparr>"

subsection \<open>Formatting integers in f-strings\<close>

definition digit_char :: "nat \<Rightarrow> char" where
  "digit_char d = ''0123456789abcdef'' ! d"

fun str_nat :: "nat \<Rightarrow> string" where
  "str_nat n = (if n < 10 then [digit_char n] else str_nat (n div 10) @ [digit_char (n mod 10)])"

fun hex_nat :: "nat \<Rightarrow> string" where
  "hex_nat n = (if n < 16 then [digit_char n] else hex_nat (n div 16) @ [digit_char (n mod 16)])"

declare str_nat.simps [simp del] hex_nat.simps [simp del]

text \<open>\<open>f"{i}"\<close> and \<open>f"{i:x}"\<close>: a minus sign, then the digits of the absolute value.\<close>

definition str_int :: "int \<Rightarrow> string" where
  "str_int i = (if i < 0 then ''-'' @ str_nat (nat (- i)) else str_nat (nat i))"

definition hex_int :: "int \<Rightarrow> string" where
  "hex_int i = (if i < 0 then ''-'' @ hex_nat (nat (- i)) else hex_nat (nat i))"

subsection \<open>\<open>struct.pack\<close> with a little-endian format\<close>

text \<open>
  The format codes the script uses: \<open>I\<close> (unsigned, 4 bytes), \<open>Q\<close> (unsigned, 8 bytes)
  and \<open>x\<close> (one pad byte, always zero, taking no argument). With the \<open><\<close> prefix there
  is no alignment, and a value out of the code's range, a missing or a surplus argument
  raise \<open>struct.error\<close>.
\<close>

datatype fmt_code = FmtI | FmtQ | FmtX

primrec le_bytes :: "nat \<Rightarrow> nat \<Rightarrow> byte list" where
  "le_bytes 0 n = []"
| "le_bytes (Suc k) n = of_nat (n mod 256) # le_bytes k (n div 256)"

fun struct_pack :: "fmt_code list \<Rightarrow> int list \<Rightarrow> error + byte list" where
  "struct_pack [] [] = Inr []"
| "struct_pack [] (v # vs) = Inl StructError"
| "struct_pack (FmtX # cs) vs =
     (case struct_pack cs vs of Inl e \<Rightarrow> Inl e | Inr bs \<Rightarrow> Inr (0 # bs))"
| "struct_pack (FmtI # cs) [] = Inl StructError"
| "struct_pack (FmtI # cs) (v # vs) =
     (if 0 \<le> v \<and> v \<le> 4294967295 then
        (case struct_pack cs vs of Inl e \<Rightarrow> Inl e | Inr bs \<Rightarrow> Inr (le_bytes 4 (nat v) @ bs))
      else Inl StructError)"
| "struct_pack (FmtQ # cs) [] = Inl StructError"
| "struct_pack (FmtQ # cs) (v # vs) =
     (if 0 \<le> v \<and> v \<le> 18446744073709551615 then
        (case struct_pack cs vs of Inl e \<Rightarrow> Inl e | Inr bs \<Rightarrow> Inr (le_bytes 8 (nat v) @ bs))
      else Inl StructError)"

text \<open>The format string \<open>'<IIQQQQQQI4x'\<close>.\<close>

definition header_fmt :: "fmt_code list" where
  "header_fmt = [FmtI, FmtI, FmtQ, FmtQ, FmtQ, FmtQ, FmtQ, FmtQ, FmtI, FmtX, FmtX, FmtX, FmtX]"

text \<open>\<open>struct.calcsize\<close>: the number of bytes a format describes.\<close>

fun code_size :: "fmt_code \<Rightarrow> nat" where
  "code_size FmtI = 4"
| "code_size FmtQ = 8"
| "code_size FmtX = 1"

definition calcsize :: "fmt_code list \<Rightarrow> nat" where
  "calcsize cs = sum_list (map code_size cs)"

subsection \<open>The conversion function\<close>

text \<open>
  \<open>make_arm64_image(input_bin, output_image, load_offset)\<close>, statement by statement.
  The source also binds \<open>res5 = 0\<close>, which it never packs.
\<close>

definition make_arm64_image :: "path \<Rightarrow> path \<Rightarrow> int \<Rightarrow> world \<Rightarrow> (error + unit) \<times> world" where
  "make_arm64_image input_bin output_image load_offset w =
     (case read_file input_bin w of
        (Inl e, w1) \<Rightarrow> (Inl e, w1)
      | (Inr kernel_data, w1) \<Rightarrow>
          let kernel_size = int (length kernel_data);
              code0 = 0x14000010;
              code1 = 0x00000000;
              text_offset = load_offset;
              image_size = kernel_size + 64;
              flags = 0x0;
              res2 = 0;
              res3 = 0;
              res4 = 0;
              magic = 0x644d5241
          in
          (case struct_pack header_fmt
                  [code0, code1, text_offset, image_size, flags, res2, res3, res4, magic] of
             Inl e \<Rightarrow> (Inl e, w1)
           | Inr header \<Rightarrow>
               if length header \<noteq> 64 then (Inl AssertionError, w1)
               else
                 (case open_wb output_image w1 of
                    (Inl e, w2) \<Rightarrow> (Inl e, w2)
                  | (Inr _, w2) \<Rightarrow>
                      (case write_file output_image header w2 of
                         (Inl e, w3) \<Rightarrow> (Inl e, w3)
                       | (Inr _, w3) \<Rightarrow>
                           (case write_file output_image kernel_data w3 of
                              (Inl e, w4) \<Rightarrow> (Inl e, w4)
                            | (Inr _, w4) \<Rightarrow>
                                let w5 = print_line (''Created ARM64 Image: '' @ output_image) w4;
                                    w6 = print_line ''  Header size: 64 bytes'' w5;
                                    w7 = print_line
                                      (''  Kernel size: '' @ str_int kernel_size @ '' bytes'') w6
                                in
                                (case getsize output_image w7 of
                                   (Inl e, w8) \<Rightarrow> (Inl e, w8)
                                 | (Inr total_size, w8) \<Rightarrow>
                                     let w9 = print_line
                                           (''  Total size: '' @ str_nat total_size @ '' bytes'') w8;
                                         w10 = print_line
                                           (''  Load offset: 0x'' @ hex_int text_offset) w9
                                     in (Inr (), w10)))))))"

subsection \<open>The command line\<close>

text \<open>
  How the process ends: \<open>sys.exit(1)\<close>, falling off the end of the script (status 0), or
  an exception nobody catches.
\<close>

datatype outcome = Exit nat | Uncaught error

definition main :: "string list \<Rightarrow> world \<Rightarrow> outcome \<times> world" where
  "main argv w =
     (if length argv < 3 then
        (case argv of
           [] \<Rightarrow> (Uncaught IndexError, w)
         | prog # _ \<Rightarrow> (Exit 1, print_line (''Usage: '' @ prog @ '' <input.bin> <output.Image>'') w))
      else
        (case make_arm64_image (argv ! 1) (argv ! 2) 0 w of
           (Inl e, w') \<Rightarrow> (Uncaught e, w')
         | (Inr _, w') \<Rightarrow> (Exit 0, w')))"

subsection \<open>Reading a header back\<close>

text \<open>
  The decoder the claims speak of is not part of the script; it is \<open>struct.unpack\<close>
  for the same format codes, written from the layout table of the specification:
  little-endian unsigned fields, pad bytes skipped.
\<close>

definition le_int :: "byte list \<Rightarrow> int" where
  "le_int bs = int (foldr (\<lambda>b acc. unat b + 256 * acc) bs 0)"

fun struct_unpack :: "fmt_code list \<Rightarrow> byte list \<Rightarrow> int list option" where
  "struct_unpack [] bs = (if bs = [] then Some [] else None)"
| "struct_unpack (FmtX # cs) bs =
     (case bs of [] \<Rightarrow> None | _ # bs' \<Rightarrow> struct_unpack cs bs')"
| "struct_unpack (FmtI # cs) bs =
     (if length bs < 4 then None
      else map_option ((#) (le_int (take 4 bs))) (struct_unpack cs (drop 4 bs)))"
| "struct_unpack (FmtQ # cs) bs =
     (if length bs < 8 then None
      else map_option ((#) (le_int (take 8 bs))) (struct_unpack cs (drop 8 bs)))"

record image_header =
  hdr_code0 :: int
  hdr_code1 :: int
  hdr_text_offset :: int
  hdr_image_size :: int
  hdr_flags :: int
  hdr_res2 :: int
  hdr_res3 :: int
  hdr_res4 :: int
  hdr_magic :: int
  hdr_pad :: "byte list"

definition decode_header :: "byte list \<Rightarrow> image_header option" where
  "decode_header bs =
     (case struct_unpack header_fmt bs of
        Some [c0, c1, t, s, f, r2, r3, r4, m] \<Rightarrow>
          Some \<lparr>hdr_code0 = c0, hdr_code1 = c1, hdr_text_offset = t, hdr_image_size = s,
                hdr_flags = f, hdr_res2 = r2, hdr_res3 = r3, hdr_res4 = r4, hdr_magic = m,
                hdr_pad = drop 60 bs\<rparr>
      | _ \<Rightarrow> None)"

text \<open>
  The A64 instruction \<open>B label\<close>: bits 31..26 are \<open>000101\<close>, bits 25..0 the byte offset
  divided by four.
\<close>

definition a64_branch :: "int \<Rightarrow> int" where
  "a64_branch byte_offset = 0x14000000 + (byte_offset div 4) mod 2 ^ 26"

text \<open>The four bytes \<open>"ARM\x64"\<close> that identify the format.\<close>

definition arm64_magic_bytes :: "byte list" where
  "arm64_magic_bytes = [0x41, 0x52, 0x4d, 0x64]"

subsection \<open>What a run is expected to leave behind\<close>

text \<open>
  The lines of the report, collected in one list: output path, header size, payload
  size, total size and load offset. The statements below compare it with what
  \<open>make_arm64_image\<close> prints.
\<close>

definition report :: "path \<Rightarrow> nat \<Rightarrow> int \<Rightarrow> string list" where
  "report output_image n load_offset =
     [''Created ARM64 Image: '' @ output_image,
      ''  Header size: 64 bytes'',
      ''  Kernel size: '' @ str_int (int n) @ '' bytes'',
      ''  Total size: '' @ str_nat (64 + n) @ '' bytes'',
      ''  Load offset: 0x'' @ hex_int load_offset]"

text \<open>
  The world a conversion is expected to leave: the image at the output path, the report
  on standard output, and five file-system calls in the log.
\<close>

definition converted :: "path \<Rightarrow> path \<Rightarrow> int \<Rightarrow> byte list \<Rightarrow> byte list \<Rightarrow> world \<Rightarrow> world" where
  "converted input_bin output_image load_offset header kernel_data w =
     w\<lparr>files := (files w)(output_image \<mapsto> header @ kernel_data),
       stdout := stdout w @ report output_image (length kernel_data) load_offset,
       fs_ops := fs_ops w @
         [OpenRead input_bin, OpenWrite output_image, WriteBytes output_image header,
          WriteBytes output_image kernel_data, Stat output_image]\<rparr>"

text \<open>
  A small world to run the script in: a three-byte kernel, an empty file, no limit on
  any device, nothing printed yet.
\<close>

definition example_world :: world where
  "example_world =
     \<lparr>files = [''kernel.bin'' \<mapsto> [0xde, 0xad, 0xbe], ''empty.bin'' \<mapsto> []],
      unreadable = {}, unwritable = {}, max_size = Map.empty, stdout = [], fs_ops = []\<rparr>"

text \<open>The same world on a disk where the image can grow to ten bytes only.\<close>

definition full_disk_world :: world where
  "full_disk_world = example_world\<lparr>max_size := [''kernel.img'' \<mapsto> 10]\<rparr>"

section \<open>Properties\<close>

subsection \<open>Little-endian fields and \<open>struct.pack\<close>\<close>

lemma length_le_bytes [simp]: "length (le_bytes k n) = k"
  by (induction k arbitrary: n) simp_all

lemma unat_byte_of_nat: "unat (of_nat (n mod 256) :: byte) = n mod 256"
  by (simp add: unat_of_nat)

lemma le_nat_le_bytes:
  "foldr (\<lambda>b acc. unat b + 256 * acc) (le_bytes k n) 0 = n mod 256 ^ k"
proof (induction k arbitrary: n)
  case 0
  show ?case by simp
next
  case (Suc k)
  have "n mod 256 + 256 * (n div 256 mod 256 ^ k) = n mod (256 * 256 ^ k)"
    by (simp add: mod_mult2_eq)
  with Suc [of "n div 256"] show ?case
    by (simp add: unat_byte_of_nat)
qed

lemma le_int_le_bytes: "le_int (le_bytes k n) = int (n mod 256 ^ k)"
  by (simp add: le_int_def le_nat_le_bytes)

lemma le_int_le_bytes_4: "0 \<le> v \<Longrightarrow> v \<le> 4294967295 \<Longrightarrow> le_int (le_bytes 4 (nat v)) = v"
  by (simp add: le_int_le_bytes)

lemma le_int_le_bytes_8:
  "0 \<le> v \<Longrightarrow> v \<le> 18446744073709551615 \<Longrightarrow> le_int (le_bytes 8 (nat v)) = v"
  by (simp add: le_int_le_bytes)

text \<open>\<open>struct.pack\<close> raises nothing but \<open>struct.error\<close>, and packs \<open>calcsize\<close> bytes.\<close>

lemma struct_pack_error: "struct_pack cs vs = Inl e \<Longrightarrow> e = StructError"
  by (induction cs vs rule: struct_pack.induct) (auto split: if_splits sum.splits)

lemma struct_pack_length: "struct_pack cs vs = Inr bs \<Longrightarrow> length bs = calcsize cs"
  by (induction cs vs arbitrary: bs rule: struct_pack.induct)
     (auto simp: calcsize_def split: if_splits sum.splits)

lemma calcsize_header_fmt: "calcsize header_fmt = 64"
  by (simp add: calcsize_def header_fmt_def)

text \<open>Unpacking what was packed gives the values back.\<close>

lemma struct_unpack_pack: "struct_pack cs vs = Inr bs \<Longrightarrow> struct_unpack cs bs = Some vs"
proof (induction cs vs arbitrary: bs rule: struct_pack.induct)
  case (5 cs v vs)
  then show ?case
    by (auto simp: le_int_le_bytes_4 split: if_splits sum.splits)
next
  case (7 cs v vs)
  then show ?case
    by (auto simp: le_int_le_bytes_8 split: if_splits sum.splits)
qed (auto split: sum.splits)

lemma pack_header_bytes:
  "struct_pack header_fmt [c0, c1, t, s, f, r2, r3, r4, m] = Inr h \<Longrightarrow>
   h = le_bytes 4 (nat c0) @ le_bytes 4 (nat c1) @ le_bytes 8 (nat t) @ le_bytes 8 (nat s) @
       le_bytes 8 (nat f) @ le_bytes 8 (nat r2) @ le_bytes 8 (nat r3) @ le_bytes 8 (nat r4) @
       le_bytes 4 (nat m) @ [0, 0, 0, 0]"
  by (simp add: header_fmt_def split: if_splits)

lemma pack_header_ok:
  assumes "0 \<le> t" "t \<le> 18446744073709551615" "0 \<le> s" "s \<le> 18446744073709551615"
  shows "struct_pack header_fmt [0x14000010, 0, t, s, 0, 0, 0, 0, 0x644d5241] =
     Inr (le_bytes 4 0x14000010 @ le_bytes 4 0 @ le_bytes 8 (nat t) @ le_bytes 8 (nat s) @
       le_bytes 8 0 @ le_bytes 8 0 @ le_bytes 8 0 @ le_bytes 8 0 @
       le_bytes 4 0x644d5241 @ [0, 0, 0, 0])"
  using assms by (simp add: header_fmt_def)

lemma pack_header_fails:
  assumes "\<not> (0 \<le> t \<and> t \<le> 18446744073709551615 \<and> 0 \<le> s \<and> s \<le> 18446744073709551615)"
  shows "struct_pack header_fmt [0x14000010, 0, t, s, 0, 0, 0, 0, 0x644d5241] = Inl StructError"
  using assms by (auto simp add: header_fmt_def)

lemma drop_60_header:
  "struct_pack header_fmt [c0, c1, t, s, f, r2, r3, r4, m] = Inr h \<Longrightarrow> drop 60 h = [0, 0, 0, 0]"
  by (drule pack_header_bytes) simp

lemma decode_header_pack:
  assumes "struct_pack header_fmt [c0, c1, t, s, f, r2, r3, r4, m] = Inr h"
  shows "decode_header h =
    Some \<lparr>hdr_code0 = c0, hdr_code1 = c1, hdr_text_offset = t, hdr_image_size = s,
          hdr_flags = f, hdr_res2 = r2, hdr_res3 = r3, hdr_res4 = r4, hdr_magic = m,
          hdr_pad = [0, 0, 0, 0]\<rparr>"
  using struct_unpack_pack [OF assms] drop_60_header [OF assms]
  by (simp add: decode_header_def)

lemma a64_branch_0x40: "a64_branch 0x40 = 0x14000010"
  by (simp add: a64_branch_def)

lemma le_int_arm64_magic_bytes: "le_int arm64_magic_bytes = 0x644d5241"
  by (simp add: le_int_def arm64_magic_bytes_def)

subsection \<open>The five ways a conversion can end\<close>

lemma read_file_Inr_iff:
  "fst (read_file p w) = Inr bs \<longleftrightarrow> files w p = Some bs \<and> p \<notin> unreadable w"
  by (simp add: read_file_def split: option.splits)

lemma read_file_Inl:
  "fst (read_file p w) = Inl e \<Longrightarrow> e = OSError ENOENT \<or> e = OSError EACCES"
  by (auto simp add: read_file_def split: option.splits if_splits)

lemma read_file_fails:
  "files w p = None \<or> p \<in> unreadable w \<Longrightarrow> \<exists>n. fst (read_file p w) = Inl (OSError n)"
  by (cases "files w p") (auto simp add: read_file_def)

lemma read_file_world: "snd (read_file p w) = log_op (OpenRead p) w"
  by (simp add: read_file_def split: option.splits)

lemma converted_simps [simp]:
  "files (converted i out t h P w) = (files w)(out \<mapsto> h @ P)"
  "stdout (converted i out t h P w) = stdout w @ report out (length P) t"
  "fs_ops (converted i out t h P w) =
     fs_ops w @ [OpenRead i, OpenWrite out, WriteBytes out h, WriteBytes out P, Stat out]"
  "unreadable (converted i out t h P w) = unreadable w"
  "unwritable (converted i out t h P w) = unwritable w"
  "max_size (converted i out t h P w) = max_size w"
  by (simp_all add: converted_def)

text \<open>The input cannot be read: the exception of \<open>open\<close> leaves the function.\<close>

lemma make_arm64_image_read_fails:
  assumes "fst (read_file input_bin w) = Inl e"
  shows "make_arm64_image input_bin output_image load_offset w =
           (Inl e, log_op (OpenRead input_bin) w)"
  using assms read_file_world [of input_bin w]
  by (cases "read_file input_bin w") (simp add: make_arm64_image_def)

text \<open>A field does not fit: \<open>struct.pack\<close> raises before the output is opened.\<close>

lemma make_arm64_image_pack_fails:
  assumes "files w input_bin = Some kernel_data" "input_bin \<notin> unreadable w"
    and "\<not> (0 \<le> load_offset \<and> load_offset \<le> 18446744073709551615 \<and>
            int (length kernel_data) + 64 \<le> 18446744073709551615)"
  shows "make_arm64_image input_bin output_image load_offset w =
           (Inl StructError, log_op (OpenRead input_bin) w)"
proof -
  have "struct_pack header_fmt
          [0x14000010, 0, load_offset, int (length kernel_data) + 64, 0, 0, 0, 0, 0x644d5241] =
        Inl StructError"
    using assms(3) by (intro pack_header_fails) auto
  then show ?thesis
    using assms(1,2) by (simp add: make_arm64_image_def read_file_def)
qed

text \<open>The output cannot be opened.\<close>

lemma make_arm64_image_open_fails:
  assumes "files w input_bin = Some kernel_data" "input_bin \<notin> unreadable w"
    and "0 \<le> load_offset" "load_offset \<le> 18446744073709551615"
    and "int (length kernel_data) + 64 \<le> 18446744073709551615"
    and "output_image \<in> unwritable w"
  shows "make_arm64_image input_bin output_image load_offset w =
           (Inl (OSError EACCES), log_op (OpenWrite output_image) (log_op (OpenRead input_bin) w))"
proof -
  have "struct_pack header_fmt
          [0x14000010, 0, load_offset, int (length kernel_data) + 64, 0, 0, 0, 0, 0x644d5241] =
     Inr (le_bytes 4 0x14000010 @ le_bytes 4 0 @ le_bytes 8 (nat load_offset) @
       le_bytes 8 (nat (int (length kernel_data) + 64)) @
       le_bytes 8 0 @ le_bytes 8 0 @ le_bytes 8 0 @ le_bytes 8 0 @
       le_bytes 4 0x644d5241 @ [0, 0, 0, 0])"
    using assms(3-5) by (intro pack_header_ok) auto
  then show ?thesis
    using assms(1,2,6) by (simp add: make_arm64_image_def read_file_def open_wb_def log_op_def)
qed

text \<open>
  The device fills up while the image is written: the run ends in \<open>OSError\<close>, nothing
  is printed, and the output file is left with the bytes that fit.
\<close>

lemma make_arm64_image_write_fails:
  assumes "files w input_bin = Some kernel_data" "input_bin \<notin> unreadable w"
    and "struct_pack header_fmt
          [0x14000010, 0, load_offset, int (length kernel_data) + 64, 0, 0, 0, 0, 0x644d5241] =
        Inr header"
    and "output_image \<notin> unwritable w"
    and "\<not> has_room output_image (64 + length kernel_data) w"
  shows "fst (make_arm64_image input_bin output_image load_offset w) = Inl (OSError ENOSPC) \<and>
    stdout (snd (make_arm64_image input_bin output_image load_offset w)) = stdout w \<and>
    (\<exists>m. max_size w output_image = Some m \<and>
       files (snd (make_arm64_image input_bin output_image load_offset w)) output_image =
         Some (take m (header @ kernel_data)))"
proof -
  have len: "length header = 64"
    using struct_pack_length [OF assms(3)] by (simp add: calcsize_header_fmt)
  from assms(5) obtain m where m: "max_size w output_image = Some m"
    and small: "m < 64 + length kernel_data"
    by (auto simp add: has_room_def split: option.splits)
  show ?thesis
  proof (cases "64 \<le> m")
    case True
    with small have "\<not> length kernel_data \<le> m - 64" by simp
    with True assms(1-4) len m show ?thesis
      by (simp add: make_arm64_image_def read_file_def open_wb_def write_file_def
          log_op_def Let_def)
  next
    case False
    with assms(1-4) len m show ?thesis
      by (simp add: make_arm64_image_def read_file_def open_wb_def write_file_def
          log_op_def Let_def)
  qed
qed

text \<open>Otherwise the run goes through; the assertion holds because the header has 64 bytes.\<close>

lemma make_arm64_image_ok:
  assumes "files w input_bin = Some kernel_data" "input_bin \<notin> unreadable w"
    and "struct_pack header_fmt
          [0x14000010, 0, load_offset, int (length kernel_data) + 64, 0, 0, 0, 0, 0x644d5241] =
        Inr header"
    and "output_image \<notin> unwritable w"
    and "has_room output_image (64 + length kernel_data) w"
  shows "make_arm64_image input_bin output_image load_offset w =
           (Inr (), converted input_bin output_image load_offset header kernel_data w)"
proof -
  have len: "length header = 64"
    using struct_pack_length [OF assms(3)] by (simp add: calcsize_header_fmt)
  show ?thesis
  proof (cases "max_size w output_image")
    case None
    with assms(1-4) len show ?thesis
      by (simp add: make_arm64_image_def read_file_def open_wb_def write_file_def getsize_def
          print_line_def log_op_def report_def converted_def Let_def)
  next
    case (Some m)
    with assms(5) have "64 \<le> m" and "length kernel_data \<le> m - 64"
      by (simp_all add: has_room_def)
    with Some assms(1-4) len show ?thesis
      by (simp add: make_arm64_image_def read_file_def open_wb_def write_file_def getsize_def
          print_line_def log_op_def report_def converted_def Let_def)
  qed
qed

lemma make_arm64_image_success:
  assumes ok: "fst (make_arm64_image input_bin output_image load_offset w) = Inr u"
    and rd: "fst (read_file input_bin w) = Inr kernel_data"
  obtains header where
    "struct_pack header_fmt
       [0x14000010, 0, load_offset, int (length kernel_data) + 64, 0, 0, 0, 0, 0x644d5241] =
     Inr header"
    and "length header = 64"
    and "output_image \<notin> unwritable w"
    and "has_room output_image (64 + length kernel_data) w"
    and "make_arm64_image input_bin output_image load_offset w =
           (Inr (), converted input_bin output_image load_offset header kernel_data w)"
proof -
  from rd have f: "files w input_bin = Some kernel_data" and r: "input_bin \<notin> unreadable w"
    by (simp_all add: read_file_Inr_iff)
  have range: "0 \<le> load_offset \<and> load_offset \<le> 18446744073709551615 \<and>
      int (length kernel_data) + 64 \<le> 18446744073709551615"
  proof (rule ccontr)
    assume "\<not> ?thesis"
    from make_arm64_image_pack_fails [OF f r this, of output_image] ok show False by simp
  qed
  have wr: "output_image \<notin> unwritable w"
  proof
    assume "output_image \<in> unwritable w"
    with make_arm64_image_open_fails [OF f r _ _ _ this, of load_offset] range ok
    show False by simp
  qed
  from range obtain header where
    h: "struct_pack header_fmt
       [0x14000010, 0, load_offset, int (length kernel_data) + 64, 0, 0, 0, 0, 0x644d5241] =
     Inr header"
    using pack_header_ok [of load_offset "int (length kernel_data) + 64"] by auto
  have len: "length header = 64"
    using struct_pack_length [OF h] by (simp add: calcsize_header_fmt)
  have room: "has_room output_image (64 + length kernel_data) w"
  proof (rule ccontr)
    assume "\<not> ?thesis"
    from make_arm64_image_write_fails [OF f r h wr this] ok show False by simp
  qed
  from h len wr room make_arm64_image_ok [OF f r h wr room] that show thesis by blast
qed

text \<open>When a run succeeds.\<close>

lemma make_arm64_image_succeeds_iff:
  "fst (make_arm64_image input_bin output_image load_offset w) = Inr () \<longleftrightarrow>
     (\<exists>kernel_data. files w input_bin = Some kernel_data \<and> input_bin \<notin> unreadable w \<and>
        0 \<le> load_offset \<and> load_offset \<le> 18446744073709551615 \<and>
        int (length kernel_data) + 64 \<le> 18446744073709551615 \<and>
        output_image \<notin> unwritable w \<and>
        has_room output_image (64 + length kernel_data) w)"
  (is "?l \<longleftrightarrow> ?r")
proof
  assume l: ?l
  show ?r
  proof (cases "fst (read_file input_bin w)")
    case (Inl e)
    with make_arm64_image_read_fails [of input_bin w e output_image load_offset] l
    show ?thesis by simp
  next
    case (Inr kernel_data)
    then have f: "files w input_bin = Some kernel_data" and r: "input_bin \<notin> unreadable w"
      by (simp_all add: read_file_Inr_iff)
    have range: "0 \<le> load_offset \<and> load_offset \<le> 18446744073709551615 \<and>
      int (length kernel_data) + 64 \<le> 18446744073709551615"
    proof (rule ccontr)
      assume "\<not> ?thesis"
      from make_arm64_image_pack_fails [OF f r this, of output_image] l show False by simp
    qed
    from make_arm64_image_success [OF l Inr]
    have "output_image \<notin> unwritable w \<and> has_room output_image (64 + length kernel_data) w"
      by blast
    with f r range show ?thesis by blast
  qed
next
  assume ?r
  then obtain kernel_data where f: "files w input_bin = Some kernel_data"
    and r: "input_bin \<notin> unreadable w"
    and range: "0 \<le> load_offset" "load_offset \<le> 18446744073709551615"
      "int (length kernel_data) + 64 \<le> 18446744073709551615"
    and wr: "output_image \<notin> unwritable w"
    and room: "has_room output_image (64 + length kernel_data) w" by blast
  have "0 \<le> int (length kernel_data) + 64" by simp
  from pack_header_ok [OF range(1,2) this range(3)] make_arm64_image_ok [OF f r _ wr room]
  show ?l by simp
qed

text \<open>The assertion on the header size is never the way a run ends.\<close>

lemma make_arm64_image_no_AssertionError:
  "fst (make_arm64_image input_bin output_image load_offset w) \<noteq> Inl AssertionError"
proof (cases "fst (read_file input_bin w)")
  case (Inl e)
  with read_file_Inl [OF Inl] make_arm64_image_read_fails [OF Inl, of output_image load_offset]
  show ?thesis by auto
next
  case (Inr P)
  then have f: "files w input_bin = Some P" and r: "input_bin \<notin> unreadable w"
    by (simp_all add: read_file_Inr_iff)
  show ?thesis
  proof (cases "0 \<le> load_offset \<and> load_offset \<le> 18446744073709551615 \<and>
            int (length P) + 64 \<le> 18446744073709551615")
    case False
    from make_arm64_image_pack_fails [OF f r False, of output_image] show ?thesis by simp
  next
    case range: True
    show ?thesis
    proof (cases "output_image \<in> unwritable w")
      case True
      with make_arm64_image_open_fails [OF f r _ _ _ True, of load_offset] range
      show ?thesis by simp
    next
      case wr: False
      from range obtain header where
        h: "struct_pack header_fmt
          [0x14000010, 0, load_offset, int (length P) + 64, 0, 0, 0, 0, 0x644d5241] = Inr header"
        using pack_header_ok [of load_offset "int (length P) + 64"] by auto
      show ?thesis
      proof (cases "has_room output_image (64 + length P) w")
        case True
        from make_arm64_image_ok [OF f r h wr True] show ?thesis by simp
      next
        case False
        from make_arm64_image_write_fails [OF f r h wr False] show ?thesis by simp
      qed
    qed
  qed
qed

subsection \<open>The command line\<close>

lemma main_runs_make_arm64_image:
  "3 \<le> length argv \<Longrightarrow>
   main argv w =
     (case make_arm64_image (argv ! 1) (argv ! 2) 0 w of
        (Inl e, w') \<Rightarrow> (Uncaught e, w')
      | (Inr u, w') \<Rightarrow> (Exit 0, w'))"
  by (simp add: main_def)

lemma main_Exit_0:
  assumes "3 \<le> length argv"
  shows "fst (main argv w) = Exit 0 \<longleftrightarrow>
         fst (make_arm64_image (argv ! 1) (argv ! 2) 0 w) = Inr ()"
  using assms
  by (cases "make_arm64_image (argv ! 1) (argv ! 2) 0 w")
    (auto simp add: main_def split: sum.splits)

lemma main_world:
  assumes "3 \<le> length argv"
  shows "snd (main argv w) = snd (make_arm64_image (argv ! 1) (argv ! 2) 0 w)"
  using assms
  by (cases "make_arm64_image (argv ! 1) (argv ! 2) 0 w")
    (auto simp add: main_def split: sum.splits)

subsection \<open>Running the script in the example world\<close>

lemma example_read_kernel:
  "fst (read_file ''kernel.bin'' example_world) = Inr [0xde, 0xad, 0xbe]"
  by (simp add: read_file_def example_world_def)

lemma example_read_empty: "fst (read_file ''empty.bin'' example_world) = Inr []"
  by (simp add: read_file_def example_world_def)

lemma example_writable: "p \<notin> unwritable example_world"
  by (simp add: example_world_def)

lemma full_disk_read_kernel:
  "fst (read_file ''kernel.bin'' full_disk_world) = Inr [0xde, 0xad, 0xbe]"
  by (simp add: read_file_def full_disk_world_def example_world_def)

lemma example_run_ok:
  "fst (make_arm64_image ''kernel.bin'' ''kernel.img'' 0x80000 example_world) = Inr ()"
  by (simp add: make_arm64_image_succeeds_iff has_room_def example_world_def)

lemma example_run_0_ok:
  "fst (make_arm64_image ''kernel.bin'' ''kernel.img'' 0 example_world) = Inr ()"
  by (simp add: make_arm64_image_succeeds_iff has_room_def example_world_def)

lemma example_rerun_world:
  "files (snd (make_arm64_image ''kernel.bin'' ''kernel.img'' 0x80000 example_world))
     ''kernel.bin'' = Some [0xde, 0xad, 0xbe] \<and>
   unreadable (snd (make_arm64_image ''kernel.bin'' ''kernel.img'' 0x80000 example_world)) = {} \<and>
   unwritable (snd (make_arm64_image ''kernel.bin'' ''kernel.img'' 0x80000 example_world)) = {} \<and>
   max_size (snd (make_arm64_image ''kernel.bin'' ''kernel.img'' 0x80000 example_world)) =
     Map.empty"
proof -
  from example_run_ok example_read_kernel obtain header where
    "make_arm64_image ''kernel.bin'' ''kernel.img'' 0x80000 example_world =
       (Inr (), converted ''kernel.bin'' ''kernel.img'' 0x80000 header [0xde, 0xad, 0xbe]
          example_world)"
    by (rule make_arm64_image_success)
  then show ?thesis by (simp add: example_world_def)
qed

lemma example_rerun_read:
  "fst (read_file ''kernel.bin''
     (snd (make_arm64_image ''kernel.bin'' ''kernel.img'' 0x80000 example_world))) =
   Inr [0xde, 0xad, 0xbe]"
  using example_rerun_world by (simp add: read_file_def)

lemma example_rerun_ok:
  "fst (make_arm64_image ''kernel.bin'' ''kernel.img'' 0x80000
     (snd (make_arm64_image ''kernel.bin'' ''kernel.img'' 0x80000 example_world))) = Inr ()"
  using example_rerun_world by (simp add: make_arm64_image_succeeds_iff has_room_def)

lemma str_int_3: "str_int 3 = ''3''"
  by (simp add: str_int_def str_nat.simps [of 3] digit_char_def)

lemma str_nat_67: "str_nat 67 = ''67''"
  by (simp add: str_nat.simps [of 67] str_nat.simps [of 6] digit_char_def)

lemma hex_int_0: "hex_int 0 = ''0''"
  by (simp add: hex_int_def hex_nat.simps [of 0] digit_char_def)

lemma example_main_run:
  "main [''make_image.py'', ''kernel.bin'', ''kernel.img''] example_world =
     (Exit 0, snd (make_arm64_image ''kernel.bin'' ''kernel.img'' 0 example_world))"
  using example_run_0_ok
  by (cases "make_arm64_image ''kernel.bin'' ''kernel.img'' 0 example_world")
    (simp add: main_def)

lemma example_main_stdout:
  "stdout (snd (make_arm64_image ''kernel.bin'' ''kernel.img'' 0 example_world)) =
     [''Created ARM64 Image: kernel.img'',
      ''  Header size: 64 bytes'',
      ''  Kernel size: 3 bytes'',
      ''  Total size: 67 bytes'',
      ''  Load offset: 0x0'']"
proof -
  from example_run_0_ok example_read_kernel obtain header where
    "make_arm64_image ''kernel.bin'' ''kernel.img'' 0 example_world =
       (Inr (), converted ''kernel.bin'' ''kernel.img'' 0 header [0xde, 0xad, 0xbe]
          example_world)"
    by (rule make_arm64_image_success)
  then show ?thesis
    by (simp add: example_world_def report_def str_int_3 str_nat_67 hex_int_0)
qed

text \<open>The bytes of the header and of the image, written out.\<close>

lemma le_bytes_4:
  "le_bytes 4 n =
     [of_nat (n mod 256), of_nat (n div 256 mod 256), of_nat (n div 256 div 256 mod 256),
      of_nat (n div 256 div 256 div 256 mod 256)]"
proof -
  have "le_bytes (Suc (Suc (Suc (Suc 0)))) n =
     [of_nat (n mod 256), of_nat (n div 256 mod 256), of_nat (n div 256 div 256 mod 256),
      of_nat (n div 256 div 256 div 256 mod 256)]"
    by (simp only: le_bytes.simps)
  moreover have "(4 :: nat) = Suc (Suc (Suc (Suc 0)))" by simp
  ultimately show ?thesis by (simp only:)
qed

lemma le_bytes_8:
  "le_bytes 8 n = le_bytes 4 n @ le_bytes 4 (n div 256 div 256 div 256 div 256)"
proof -
  have "le_bytes (Suc (Suc (Suc (Suc (Suc (Suc (Suc (Suc 0)))))))) n =
     le_bytes (Suc (Suc (Suc (Suc 0)))) n @
     le_bytes (Suc (Suc (Suc (Suc 0)))) (n div 256 div 256 div 256 div 256)"
    by (simp only: le_bytes.simps append.simps)
  moreover have "(4 :: nat) = Suc (Suc (Suc (Suc 0)))" by simp
  moreover have "(8 :: nat) = Suc (Suc (Suc (Suc (Suc (Suc (Suc (Suc 0)))))))" by simp
  ultimately show ?thesis by (simp only:)
qed

lemma example_header_bytes:
  "struct_pack header_fmt [0x14000010, 0, 0x80000, 67, 0, 0, 0, 0, 0x644d5241] =
     Inr [0x10, 0x00, 0x00, 0x14,  0, 0, 0, 0,
          0x00, 0x00, 0x08, 0, 0, 0, 0, 0,
          0x43, 0, 0, 0, 0, 0, 0, 0,
          0, 0, 0, 0, 0, 0, 0, 0,
          0, 0, 0, 0, 0, 0, 0, 0,
          0, 0, 0, 0, 0, 0, 0, 0,
          0, 0, 0, 0, 0, 0, 0, 0,
          0x41, 0x52, 0x4d, 0x64,  0, 0, 0, 0]"
  by (simp add: header_fmt_def le_bytes_8 le_bytes_4)

lemma example_image_bytes:
  "files (snd (make_arm64_image ''kernel.bin'' ''kernel.img'' 0x80000 example_world))
     ''kernel.img'' =
     Some [0x10, 0x00, 0x00, 0x14,  0, 0, 0, 0,
          0x00, 0x00, 0x08, 0, 0, 0, 0, 0,
          0x43, 0, 0, 0, 0, 0, 0, 0,
          0, 0, 0, 0, 0, 0, 0, 0,
          0, 0, 0, 0, 0, 0, 0, 0,
          0, 0, 0, 0, 0, 0, 0, 0,
          0, 0, 0, 0, 0, 0, 0, 0,
          0x41, 0x52, 0x4d, 0x64,  0, 0, 0, 0,
          0xde, 0xad, 0xbe]"
proof -
  have "files example_world ''kernel.bin'' = Some [0xde, 0xad, 0xbe]"
    and "''kernel.bin'' \<notin> unreadable example_world"
    and "''kernel.img'' \<notin> unwritable example_world"
    and "has_room ''kernel.img'' (64 + length [0xde :: byte, 0xad, 0xbe]) example_world"
    by (simp_all add: example_world_def has_room_def)
  moreover have "struct_pack header_fmt
      [0x14000010, 0, 0x80000, int (length [0xde :: byte, 0xad, 0xbe]) + 64, 0, 0, 0, 0,
       0x644d5241] =
     Inr [0x10, 0x00, 0x00, 0x14,  0, 0, 0, 0,
          0x00, 0x00, 0x08, 0, 0, 0, 0, 0,
          0x43, 0, 0, 0, 0, 0, 0, 0,
          0, 0, 0, 0, 0, 0, 0, 0,
          0, 0, 0, 0, 0, 0, 0, 0,
          0, 0, 0, 0, 0, 0, 0, 0,
          0, 0, 0, 0, 0, 0, 0, 0,
          0x41, 0x52, 0x4d, 0x64,  0, 0, 0, 0]"
    using example_header_bytes by simp
  ultimately show ?thesis
    by (simp add: make_arm64_image_ok)
qed

text \<open>On the disk with room for ten bytes the run fails and leaves the first ten bytes.\<close>

lemma example_full_disk:
  "fst (make_arm64_image ''kernel.bin'' ''kernel.img'' 0x80000 full_disk_world) =
     Inl (OSError ENOSPC) \<and>
   stdout (snd (make_arm64_image ''kernel.bin'' ''kernel.img'' 0x80000 full_disk_world)) = [] \<and>
   files (snd (make_arm64_image ''kernel.bin'' ''kernel.img'' 0x80000 full_disk_world))
     ''kernel.img'' = Some [0x10, 0x00, 0x00, 0x14, 0, 0, 0, 0, 0x00, 0x00]"
proof -
  have "files full_disk_world ''kernel.bin'' = Some [0xde, 0xad, 0xbe]"
    and "''kernel.bin'' \<notin> unreadable full_disk_world"
    by (simp_all add: full_disk_world_def example_world_def)
  moreover have "struct_pack header_fmt
      [0x14000010, 0, 0x80000, int (length [0xde :: byte, 0xad, 0xbe]) + 64, 0, 0, 0, 0,
       0x644d5241] =
     Inr [0x10, 0x00, 0x00, 0x14,  0, 0, 0, 0,
          0x00, 0x00, 0x08, 0, 0, 0, 0, 0,
          0x43, 0, 0, 0, 0, 0, 0, 0,
          0, 0, 0, 0, 0, 0, 0, 0,
          0, 0, 0, 0, 0, 0, 0, 0,
          0, 0, 0, 0, 0, 0, 0, 0,
          0, 0, 0, 0, 0, 0, 0, 0,
          0x41, 0x52, 0x4d, 0x64,  0, 0, 0, 0]"
    using example_header_bytes by simp
  moreover have "''kernel.img'' \<notin> unwritable full_disk_world"
    and "\<not> has_room ''kernel.img'' (64 + length [0xde :: byte, 0xad, 0xbe]) full_disk_world"
    by (simp_all add: full_disk_world_def example_world_def has_room_def)
  ultimately have "fst (make_arm64_image ''kernel.bin'' ''kernel.img'' 0x80000 full_disk_world) =
      Inl (OSError ENOSPC) \<and>
    stdout (snd (make_arm64_image ''kernel.bin'' ''kernel.img'' 0x80000 full_disk_world)) =
      stdout full_disk_world \<and>
    (\<exists>m. max_size full_disk_world ''kernel.img'' = Some m \<and>
       files (snd (make_arm64_image ''kernel.bin'' ''kernel.img'' 0x80000 full_disk_world))
         ''kernel.img'' =
         Some (take m
          ([0x10, 0x00, 0x00, 0x14,  0, 0, 0, 0,
          0x00, 0x00, 0x08, 0, 0, 0, 0, 0,
          0x43, 0, 0, 0, 0, 0, 0, 0,
          0, 0, 0, 0, 0, 0, 0, 0,
          0, 0, 0, 0, 0, 0, 0, 0,
          0, 0, 0, 0, 0, 0, 0, 0,
          0, 0, 0, 0, 0, 0, 0, 0,
          0x41, 0x52, 0x4d, 0x64,  0, 0, 0, 0] @ [0xde, 0xad, 0xbe])))"
    by (rule make_arm64_image_write_fails)
  then show ?thesis
    by (auto simp add: full_disk_world_def example_world_def)
qed

section \<open>The claims\<close>

text \<open>
  C1. Whatever payload \<open>P\<close> is read from the input path (the empty one included), the
  operation writes exactly the 64-byte header followed by the bytes of \<open>P\<close>: the output
  has \<open>64 + len(P)\<close> bytes and its bytes from 64 onward are \<open>P\<close>. The theorem also says
  when this happens: the run succeeds exactly when the output path can be opened, the
  device has room for the \<open>64 + len(P)\<close> bytes, and the load offset and the image size
  fit their 8-byte fields; the file-system calls of the run are one read, one open and
  the two writes, followed by the size query.
\<close>

theorem image_is_header_then_payload:
  assumes "fst (read_file input_bin w) = Inr P"
  shows "(fst (make_arm64_image input_bin output_image load_offset w) = Inr ()) =
      (output_image \<notin> unwritable w \<and> has_room output_image (64 + length P) w \<and>
       0 \<le> load_offset \<and> load_offset < 2 ^ 64 \<and> int (length P) + 64 < 2 ^ 64) \<and>
    (fst (make_arm64_image input_bin output_image load_offset w) = Inr () \<longrightarrow>
      (\<exists>header.
        struct_pack header_fmt
          [0x14000010, 0, load_offset, int (length P) + 64, 0, 0, 0, 0, 0x644d5241] =
          Inr header \<and>
        length header = 64 \<and>
        files (snd (make_arm64_image input_bin output_image load_offset w)) output_image =
          Some (header @ P) \<and>
        length (header @ P) = 64 + length P \<and>
        drop 64 (header @ P) = P \<and>
        fs_ops (snd (make_arm64_image input_bin output_image load_offset w)) =
          fs_ops w @
            [OpenRead input_bin, OpenWrite output_image, WriteBytes output_image header,
             WriteBytes output_image P, Stat output_image]))"
proof (intro conjI impI)
  from assms have "files w input_bin = Some P" and "input_bin \<notin> unreadable w"
    by (simp_all add: read_file_Inr_iff)
  then show "(fst (make_arm64_image input_bin output_image load_offset w) = Inr ()) =
      (output_image \<notin> unwritable w \<and> has_room output_image (64 + length P) w \<and>
       0 \<le> load_offset \<and> load_offset < 2 ^ 64 \<and> int (length P) + 64 < 2 ^ 64)"
    by (auto simp add: make_arm64_image_succeeds_iff)
next
  assume "fst (make_arm64_image input_bin output_image load_offset w) = Inr ()"
  then obtain header where
    "struct_pack header_fmt
      [0x14000010, 0, load_offset, int (length P) + 64, 0, 0, 0, 0, 0x644d5241] = Inr header"
    and "length header = 64"
    and "make_arm64_image input_bin output_image load_offset w =
           (Inr (), converted input_bin output_image load_offset header P w)"
    using assms by (rule make_arm64_image_success)
  then show "\<exists>header.
        struct_pack header_fmt
          [0x14000010, 0, load_offset, int (length P) + 64, 0, 0, 0, 0, 0x644d5241] =
          Inr header \<and>
        length header = 64 \<and>
        files (snd (make_arm64_image input_bin output_image load_offset w)) output_image =
          Some (header @ P) \<and>
        length (header @ P) = 64 + length P \<and>
        drop 64 (header @ P) = P \<and>
        fs_ops (snd (make_arm64_image input_bin output_image load_offset w)) =
          fs_ops w @
            [OpenRead input_bin, OpenWrite output_image, WriteBytes output_image header,
             WriteBytes output_image P, Stat output_image]"
    by simp
qed

text \<open>
  Three runs: the three-byte kernel at load offset 0x80000, whose image is the header
  followed by the three bytes; the empty payload, whose image is the header alone; and
  the three-byte kernel on the disk with room for ten bytes, which does not succeed.
\<close>

theorem image_is_header_then_payload_witness:
  "fst (read_file ''kernel.bin'' example_world) = Inr [0xde, 0xad, 0xbe] \<and>
   fst (make_arm64_image ''kernel.bin'' ''kernel.img'' 0x80000 example_world) = Inr () \<and>
   (\<exists>header.
      struct_pack header_fmt [0x14000010, 0, 0x80000, 67, 0, 0, 0, 0, 0x644d5241] =
        Inr header \<and>
      length header = 64 \<and>
      files (snd (make_arm64_image ''kernel.bin'' ''kernel.img'' 0x80000 example_world))
        ''kernel.img'' = Some (header @ [0xde, 0xad, 0xbe]) \<and>
      length (header @ [0xde :: byte, 0xad, 0xbe]) = 67 \<and>
      drop 64 (header @ [0xde :: byte, 0xad, 0xbe]) = [0xde, 0xad, 0xbe] \<and>
      fs_ops (snd (make_arm64_image ''kernel.bin'' ''kernel.img'' 0x80000 example_world)) =
        [OpenRead ''kernel.bin'', OpenWrite ''kernel.img'', WriteBytes ''kernel.img'' header,
         WriteBytes ''kernel.img'' [0xde, 0xad, 0xbe], Stat ''kernel.img'']) \<and>
   fst (read_file ''empty.bin'' example_world) = Inr [] \<and>
   fst (make_arm64_image ''empty.bin'' ''empty.img'' 0 example_world) = Inr () \<and>
   (\<exists>header.
      length header = 64 \<and>
      files (snd (make_arm64_image ''empty.bin'' ''empty.img'' 0 example_world))
        ''empty.img'' = Some header) \<and>
   fst (read_file ''kernel.bin'' full_disk_world) = Inr [0xde, 0xad, 0xbe] \<and>
   fst (make_arm64_image ''kernel.bin'' ''kernel.img'' 0x80000 full_disk_world) \<noteq> Inr ()"
proof -
  note kernel = image_is_header_then_payload
    [OF example_read_kernel, of "''kernel.img''" "0x80000"]
  from kernel [THEN conjunct2] example_run_ok
  have image: "\<exists>header.
      struct_pack header_fmt [0x14000010, 0, 0x80000, 67, 0, 0, 0, 0, 0x644d5241] =
        Inr header \<and>
      length header = 64 \<and>
      files (snd (make_arm64_image ''kernel.bin'' ''kernel.img'' 0x80000 example_world))
        ''kernel.img'' = Some (header @ [0xde, 0xad, 0xbe]) \<and>
      length (header @ [0xde :: byte, 0xad, 0xbe]) = 67 \<and>
      drop 64 (header @ [0xde :: byte, 0xad, 0xbe]) = [0xde, 0xad, 0xbe] \<and>
      fs_ops (snd (make_arm64_image ''kernel.bin'' ''kernel.img'' 0x80000 example_world)) =
        [OpenRead ''kernel.bin'', OpenWrite ''kernel.img'', WriteBytes ''kernel.img'' header,
         WriteBytes ''kernel.img'' [0xde, 0xad, 0xbe], Stat ''kernel.img'']"
    by (simp add: example_world_def)
  note empty = image_is_header_then_payload
    [OF example_read_empty, of "''empty.img''" 0]
  from empty [THEN conjunct1]
  have ok: "fst (make_arm64_image ''empty.bin'' ''empty.img'' 0 example_world) = Inr ()"
    by (simp add: example_world_def has_room_def)
  with empty [THEN conjunct2] have header_only: "\<exists>header.
      length header = 64 \<and>
      files (snd (make_arm64_image ''empty.bin'' ''empty.img'' 0 example_world))
        ''empty.img'' = Some header"
    by auto
  from image_is_header_then_payload
    [OF full_disk_read_kernel, of "''kernel.img''" "0x80000", THEN conjunct1]
  have full: "fst (make_arm64_image ''kernel.bin'' ''kernel.img'' 0x80000 full_disk_world) \<noteq>
      Inr ()"
    by (simp add: full_disk_world_def has_room_def)
  from example_read_kernel example_run_ok image example_read_empty ok header_only
    full_disk_read_kernel full
  show ?thesis by blast
qed

text \<open>
  C2. For every payload \<open>P\<close> and every load offset, the first 64 bytes of the output a
  run produces decode, little-endian, to a header whose \<open>image_size\<close> is
  \<open>64 + len(P)\<close> and whose \<open>text_offset\<close> is the load offset.
\<close>

theorem header_records_size_and_offset:
  assumes "fst (make_arm64_image input_bin output_image load_offset w) = Inr ()"
    and "fst (read_file input_bin w) = Inr P"
  shows "\<exists>image hd.
    files (snd (make_arm64_image input_bin output_image load_offset w)) output_image =
      Some image \<and>
    decode_header (take 64 image) = Some hd \<and>
    hdr_image_size hd = 64 + int (length P) \<and>
    hdr_text_offset hd = load_offset"
proof -
  from assms obtain header where
    h: "struct_pack header_fmt
      [0x14000010, 0, load_offset, int (length P) + 64, 0, 0, 0, 0, 0x644d5241] = Inr header"
    and len: "length header = 64"
    and run: "make_arm64_image input_bin output_image load_offset w =
           (Inr (), converted input_bin output_image load_offset header P w)"
    by (rule make_arm64_image_success)
  from run len decode_header_pack [OF h] show ?thesis by simp
qed

theorem header_records_size_and_offset_witness:
  "fst (make_arm64_image ''kernel.bin'' ''kernel.img'' 0x80000 example_world) = Inr () \<and>
   fst (read_file ''kernel.bin'' example_world) = Inr [0xde, 0xad, 0xbe] \<and>
   (\<exists>image hd.
      files (snd (make_arm64_image ''kernel.bin'' ''kernel.img'' 0x80000 example_world))
        ''kernel.img'' = Some image \<and>
      decode_header (take 64 image) = Some hd \<and>
      hdr_image_size hd = 67 \<and> hdr_text_offset hd = 0x80000)"
  using header_records_size_and_offset [OF example_run_ok example_read_kernel]
    example_run_ok example_read_kernel
  by simp

text \<open>
  C3. In every header produced, the fields other than \<open>text_offset\<close> and \<open>image_size\<close>
  are constants: \<open>code0\<close> is the encoding of a branch 0x40 bytes forward, \<open>magic\<close> is
  the ARM64 Image identifier, and \<open>code1\<close>, \<open>flags\<close>, the three reserved fields and
  the four pad bytes are zero.
\<close>

theorem header_constant_fields:
  assumes "fst (make_arm64_image input_bin output_image load_offset w) = Inr ()"
  shows "\<exists>image hd.
    files (snd (make_arm64_image input_bin output_image load_offset w)) output_image =
      Some image \<and>
    decode_header (take 64 image) = Some hd \<and>
    hdr_code0 hd = a64_branch 0x40 \<and> a64_branch 0x40 = 0x14000010 \<and>
    hdr_magic hd = le_int arm64_magic_bytes \<and> le_int arm64_magic_bytes = 0x644d5241 \<and>
    hdr_code1 hd = 0 \<and> hdr_flags hd = 0 \<and>
    hdr_res2 hd = 0 \<and> hdr_res3 hd = 0 \<and> hdr_res4 hd = 0 \<and>
    hdr_pad hd = [0, 0, 0, 0]"
proof -
  from assms obtain P where rd: "fst (read_file input_bin w) = Inr P"
    by (auto simp add: make_arm64_image_succeeds_iff read_file_Inr_iff)
  with assms obtain header where
    h: "struct_pack header_fmt
      [0x14000010, 0, load_offset, int (length P) + 64, 0, 0, 0, 0, 0x644d5241] = Inr header"
    and len: "length header = 64"
    and run: "make_arm64_image input_bin output_image load_offset w =
           (Inr (), converted input_bin output_image load_offset header P w)"
    by (rule make_arm64_image_success)
  from run len decode_header_pack [OF h] show ?thesis
    by (simp add: a64_branch_0x40 le_int_arm64_magic_bytes)
qed

theorem header_constant_fields_witness:
  "fst (make_arm64_image ''kernel.bin'' ''kernel.img'' 0x80000 example_world) = Inr () \<and>
   (\<exists>image hd.
      files (snd (make_arm64_image ''kernel.bin'' ''kernel.img'' 0x80000 example_world))
        ''kernel.img'' = Some image \<and>
      decode_header (take 64 image) = Some hd \<and>
      hdr_code0 hd = 0x14000010 \<and> hdr_magic hd = 0x644d5241 \<and>
      hdr_code1 hd = 0 \<and> hdr_flags hd = 0 \<and>
      hdr_res2 hd = 0 \<and> hdr_res3 hd = 0 \<and> hdr_res4 hd = 0 \<and>
      hdr_pad hd = [0, 0, 0, 0])"
  using header_constant_fields [OF example_run_ok] example_run_ok
  by auto

text \<open>
  C4. For every payload and every load offset that fits the header fields, the packed
  header is exactly 64 bytes long, so the assertion on its length never fails: no run
  ends in \<open>AssertionError\<close>, whatever \<open>struct.pack\<close> returns for this format has 64
  bytes, and it does return when both variable fields fit.
\<close>

theorem header_size_assertion_unreachable:
  "fst (make_arm64_image input_bin output_image load_offset w) \<noteq> Inl AssertionError \<and>
   (\<forall>header.
      struct_pack header_fmt
        [0x14000010, 0, load_offset, kernel_size + 64, 0, 0, 0, 0, 0x644d5241] = Inr header
      \<longrightarrow> length header = 64) \<and>
   (0 \<le> load_offset \<and> load_offset < 2 ^ 64 \<and> 0 \<le> kernel_size \<and> kernel_size + 64 < 2 ^ 64
      \<longrightarrow> (\<exists>header.
            struct_pack header_fmt
              [0x14000010, 0, load_offset, kernel_size + 64, 0, 0, 0, 0, 0x644d5241] =
            Inr header))"
proof (intro conjI allI impI)
  show "fst (make_arm64_image input_bin output_image load_offset w) \<noteq> Inl AssertionError"
    by (rule make_arm64_image_no_AssertionError)
next
  fix header
  assume "struct_pack header_fmt
        [0x14000010, 0, load_offset, kernel_size + 64, 0, 0, 0, 0, 0x644d5241] = Inr header"
  from struct_pack_length [OF this] show "length header = 64"
    by (simp add: calcsize_header_fmt)
next
  assume "0 \<le> load_offset \<and> load_offset < 2 ^ 64 \<and> 0 \<le> kernel_size \<and> kernel_size + 64 < 2 ^ 64"
  then show "\<exists>header.
            struct_pack header_fmt
              [0x14000010, 0, load_offset, kernel_size + 64, 0, 0, 0, 0, 0x644d5241] =
            Inr header"
    using pack_header_ok [of load_offset "kernel_size + 64"] by simp
qed

theorem header_size_assertion_unreachable_witness:
  "fst (make_arm64_image ''kernel.bin'' ''kernel.img'' 0x80000 example_world) \<noteq>
     Inl AssertionError \<and>
   (\<exists>header.
      struct_pack header_fmt [0x14000010, 0, 0x80000, 3 + 64, 0, 0, 0, 0, 0x644d5241] =
        Inr header \<and>
      length header = 64)"
  using header_size_assertion_unreachable
    [of "''kernel.bin''" "''kernel.img''" "0x80000" example_world 3]
  by auto

text \<open>
  C5. If the input file does not exist or cannot be read, the operation fails with an
  I/O error before anything is written: the only file-system call is the failed open of
  the input, no file changes, and an output path that did not exist still does not.
\<close>

theorem missing_input_leaves_output_untouched:
  assumes "files w input_bin = None \<or> input_bin \<in> unreadable w"
  shows "\<exists>n.
    make_arm64_image input_bin output_image load_offset w =
      (Inl (OSError n), log_op (OpenRead input_bin) w) \<and>
    fs_ops (snd (make_arm64_image input_bin output_image load_offset w)) =
      fs_ops w @ [OpenRead input_bin] \<and>
    files (snd (make_arm64_image input_bin output_image load_offset w)) = files w \<and>
    (files w output_image = None \<longrightarrow>
       files (snd (make_arm64_image input_bin output_image load_offset w)) output_image = None)"
proof -
  from assms obtain n where "fst (read_file input_bin w) = Inl (OSError n)"
    using read_file_fails by blast
  from make_arm64_image_read_fails [OF this, of output_image load_offset]
  show ?thesis by (simp add: log_op_def)
qed

theorem missing_input_leaves_output_untouched_witness:
  "files example_world ''missing.bin'' = None \<and>
   files example_world ''kernel.img'' = None \<and>
   fst (make_arm64_image ''missing.bin'' ''kernel.img'' 0 example_world) =
     Inl (OSError ENOENT) \<and>
   fs_ops (snd (make_arm64_image ''missing.bin'' ''kernel.img'' 0 example_world)) =
     [OpenRead ''missing.bin''] \<and>
   files (snd (make_arm64_image ''missing.bin'' ''kernel.img'' 0 example_world))
     ''kernel.img'' = None"
proof -
  have m: "files example_world ''missing.bin'' = None"
    and o: "files example_world ''kernel.img'' = None"
    and l: "fs_ops example_world = []"
    by (simp_all add: example_world_def)
  have e: "fst (make_arm64_image ''missing.bin'' ''kernel.img'' 0 example_world) =
     Inl (OSError ENOENT)"
    by (simp add: make_arm64_image_def read_file_def m)
  from m have "files example_world ''missing.bin'' = None \<or>
      ''missing.bin'' \<in> unreadable example_world" by simp
  from missing_input_leaves_output_untouched [OF this, of "''kernel.img''" 0] m o l e
  show ?thesis by auto
qed

text \<open>
  C6. Invoked with no or with one positional argument, the program prints the usage
  line, exits with status 1, and makes no file-system call: no file is read or written.
\<close>

theorem too_few_arguments_usage:
  assumes "length args \<le> 1"
  shows "main (prog # args) w =
      (Exit 1, w\<lparr>stdout := stdout w @ [''Usage: '' @ prog @ '' <input.bin> <output.Image>'']\<rparr>) \<and>
    fs_ops (snd (main (prog # args) w)) = fs_ops w \<and>
    files (snd (main (prog # args) w)) = files w"
  using assms by (simp add: main_def print_line_def)

theorem too_few_arguments_usage_witness:
  "length [''kernel.bin''] \<le> 1 \<and>
   fst (main [''make_image.py'', ''kernel.bin''] example_world) = Exit 1 \<and>
   stdout (snd (main [''make_image.py'', ''kernel.bin''] example_world)) =
     [''Usage: make_image.py <input.bin> <output.Image>''] \<and>
   fs_ops (snd (main [''make_image.py'', ''kernel.bin''] example_world)) = [] \<and>
   files (snd (main [''make_image.py'', ''kernel.bin''] example_world)) ''kernel.img'' = None"
  using too_few_arguments_usage [of "[''kernel.bin'']" "''make_image.py''" example_world]
  by (simp add: example_world_def)

text \<open>
  C7. The operation is deterministic: two successful runs that read the same bytes and
  are given the same load offset leave byte-identical output files, whatever else the two
  worlds hold and whatever the paths are called.
\<close>

theorem same_input_same_output:
  assumes "fst (read_file input1 w1) = Inr P" and "fst (read_file input2 w2) = Inr P"
    and "fst (make_arm64_image input1 output1 load_offset w1) = Inr ()"
    and "fst (make_arm64_image input2 output2 load_offset w2) = Inr ()"
  shows "\<exists>image.
    files (snd (make_arm64_image input1 output1 load_offset w1)) output1 = Some image \<and>
    files (snd (make_arm64_image input2 output2 load_offset w2)) output2 = Some image"
proof -
  from assms(3,1) obtain h1 where
    h1: "struct_pack header_fmt
      [0x14000010, 0, load_offset, int (length P) + 64, 0, 0, 0, 0, 0x644d5241] = Inr h1"
    and run1: "make_arm64_image input1 output1 load_offset w1 =
           (Inr (), converted input1 output1 load_offset h1 P w1)"
    by (rule make_arm64_image_success)
  from assms(4,2) obtain h2 where
    h2: "struct_pack header_fmt
      [0x14000010, 0, load_offset, int (length P) + 64, 0, 0, 0, 0, 0x644d5241] = Inr h2"
    and run2: "make_arm64_image input2 output2 load_offset w2 =
           (Inr (), converted input2 output2 load_offset h2 P w2)"
    by (rule make_arm64_image_success)
  from h1 h2 have "h1 = h2" by simp
  with run1 run2 show ?thesis by simp
qed

text \<open>The script run twice in a row on the same kernel, the second time over its own output.\<close>

theorem same_input_same_output_witness:
  "fst (read_file ''kernel.bin'' example_world) = Inr [0xde, 0xad, 0xbe] \<and>
   fst (read_file ''kernel.bin''
     (snd (make_arm64_image ''kernel.bin'' ''kernel.img'' 0x80000 example_world))) =
     Inr [0xde, 0xad, 0xbe] \<and>
   fst (make_arm64_image ''kernel.bin'' ''kernel.img'' 0x80000 example_world) = Inr () \<and>
   fst (make_arm64_image ''kernel.bin'' ''kernel.img'' 0x80000
     (snd (make_arm64_image ''kernel.bin'' ''kernel.img'' 0x80000 example_world))) = Inr () \<and>
   (\<exists>image.
      files (snd (make_arm64_image ''kernel.bin'' ''kernel.img'' 0x80000 example_world))
        ''kernel.img'' = Some image \<and>
      files (snd (make_arm64_image ''kernel.bin'' ''kernel.img'' 0x80000
        (snd (make_arm64_image ''kernel.bin'' ''kernel.img'' 0x80000 example_world))))
        ''kernel.img'' = Some image)"
  using same_input_same_output
    [OF example_read_kernel example_rerun_read example_run_ok example_rerun_ok]
    example_read_kernel example_rerun_read example_run_ok example_rerun_ok
  by simp

text \<open>
  C8, as the specification states it: a successful run prints four lines. The run of the
  script on the three-byte kernel prints five.
\<close>

theorem report_is_not_four_lines:
  "fst (main [''make_image.py'', ''kernel.bin'', ''kernel.img''] example_world) = Exit 0 \<and>
   stdout (snd (main [''make_image.py'', ''kernel.bin'', ''kernel.img''] example_world)) =
     [''Created ARM64 Image: kernel.img'',
      ''  Header size: 64 bytes'',
      ''  Kernel size: 3 bytes'',
      ''  Total size: 67 bytes'',
      ''  Load offset: 0x0''] \<and>
   length (stdout (snd (main [''make_image.py'', ''kernel.bin'', ''kernel.img''] example_world)))
     \<noteq> 4"
  by (simp add: example_main_run example_main_stdout)

text \<open>
  C8, amended. On success the run adds five lines to standard output, in this order:
  the creation of the output path, the header size (64), the payload size, the total
  size of the output file and the load offset in hexadecimal. The program prints
  exactly these lines, with load offset 0.
\<close>

theorem report_has_five_lines:
  assumes "fst (make_arm64_image input_bin output_image load_offset w) = Inr ()"
    and "fst (read_file input_bin w) = Inr P"
  shows "stdout (snd (make_arm64_image input_bin output_image load_offset w)) =
      stdout w @
        [''Created ARM64 Image: '' @ output_image,
         ''  Header size: 64 bytes'',
         ''  Kernel size: '' @ str_int (int (length P)) @ '' bytes'',
         ''  Total size: '' @ str_nat (64 + length P) @ '' bytes'',
         ''  Load offset: 0x'' @ hex_int load_offset] \<and>
    (load_offset = 0 \<longrightarrow>
       main (prog # input_bin # output_image # extra) w =
         (Exit 0, snd (make_arm64_image input_bin output_image load_offset w)))"
proof -
  from assms obtain header where
    run: "make_arm64_image input_bin output_image load_offset w =
           (Inr (), converted input_bin output_image load_offset header P w)"
    by (rule make_arm64_image_success)
  have printed: "stdout (snd (make_arm64_image input_bin output_image load_offset w)) =
      stdout w @ report output_image (length P) load_offset"
    by (simp add: run)
  have "main (prog # input_bin # output_image # extra) w =
         (Exit 0, snd (make_arm64_image input_bin output_image load_offset w))"
    if "load_offset = 0"
    using run that by (simp add: main_def)
  with printed show ?thesis
    by (simp add: report_def)
qed

theorem report_has_five_lines_witness:
  "fst (make_arm64_image ''kernel.bin'' ''kernel.img'' 0 example_world) = Inr () \<and>
   fst (read_file ''kernel.bin'' example_world) = Inr [0xde, 0xad, 0xbe] \<and>
   stdout (snd (make_arm64_image ''kernel.bin'' ''kernel.img'' 0 example_world)) =
     stdout example_world @
       [''Created ARM64 Image: kernel.img'',
        ''  Header size: 64 bytes'',
        ''  Kernel size: 3 bytes'',
        ''  Total size: 67 bytes'',
        ''  Load offset: 0x0''] \<and>
   main [''make_image.py'', ''kernel.bin'', ''kernel.img''] example_world =
     (Exit 0, snd (make_arm64_image ''kernel.bin'' ''kernel.img'' 0 example_world))"
  using report_has_five_lines
    [OF example_run_0_ok example_read_kernel, of "''make_image.py''" "[]"]
    example_run_0_ok example_read_kernel
  by (simp add: str_int_3 str_nat_67 hex_int_0)

text \<open>
  C9, as the specification states it: a load offset too large for the 8-byte field is
  silently permitted and the build completes. With load offset \<open>2^64\<close> the run ends in
  \<open>struct.error\<close> and no image is written.
\<close>

theorem oversized_load_offset_is_rejected:
  "fst (make_arm64_image ''kernel.bin'' ''kernel.img'' 18446744073709551616 example_world) =
     Inl StructError \<and>
   files (snd (make_arm64_image ''kernel.bin'' ''kernel.img'' 18446744073709551616
     example_world)) ''kernel.img'' = None"
proof -
  have "files example_world ''kernel.bin'' = Some [0xde, 0xad, 0xbe]"
    and "''kernel.bin'' \<notin> unreadable example_world"
    by (simp_all add: example_world_def)
  from make_arm64_image_pack_fails
    [OF this, of "18446744073709551616" "''kernel.img''"]
  show ?thesis by (simp add: log_op_def example_world_def)
qed

text \<open>
  C9, amended. The function has no bounds check of its own, but for every load offset
  too large for the 8-byte \<open>text_offset\<close> field the packing of the header rejects the
  value: once the input has been read the run ends in \<open>struct.error\<close>, before the output
  path is opened, and no file changes.
\<close>

theorem oversized_load_offset_struct_error:
  assumes "2 ^ 64 \<le> load_offset"
    and "fst (read_file input_bin w) = Inr P"
  shows "make_arm64_image input_bin output_image load_offset w =
      (Inl StructError, log_op (OpenRead input_bin) w) \<and>
    files (snd (make_arm64_image input_bin output_image load_offset w)) = files w \<and>
    fs_ops (snd (make_arm64_image input_bin output_image load_offset w)) =
      fs_ops w @ [OpenRead input_bin]"
proof -
  from assms(2) have "files w input_bin = Some P" and "input_bin \<notin> unreadable w"
    by (simp_all add: read_file_Inr_iff)
  moreover from assms(1) have
    "\<not> (0 \<le> load_offset \<and> load_offset \<le> 18446744073709551615 \<and>
        int (length P) + 64 \<le> 18446744073709551615)"
    by simp
  ultimately have "make_arm64_image input_bin output_image load_offset w =
      (Inl StructError, log_op (OpenRead input_bin) w)"
    by (rule make_arm64_image_pack_fails)
  then show ?thesis by (simp add: log_op_def)
qed

theorem oversized_load_offset_struct_error_witness:
  "(2 :: int) ^ 64 \<le> 2 ^ 64 + 0x80000 \<and>
   fst (read_file ''kernel.bin'' example_world) = Inr [0xde, 0xad, 0xbe] \<and>
   fst (make_arm64_image ''kernel.bin'' ''kernel.img'' (2 ^ 64 + 0x80000) example_world) =
     Inl StructError \<and>
   files (snd (make_arm64_image ''kernel.bin'' ''kernel.img'' (2 ^ 64 + 0x80000)
     example_world)) ''kernel.img'' = None \<and>
   fs_ops (snd (make_arm64_image ''kernel.bin'' ''kernel.img'' (2 ^ 64 + 0x80000)
     example_world)) = [OpenRead ''kernel.bin'']"
proof -
  have "(2 :: int) ^ 64 \<le> 2 ^ 64 + 0x80000" by simp
  from oversized_load_offset_struct_error [OF this example_read_kernel, of "''kernel.img''"]
    example_read_kernel
  show ?thesis by (simp add: example_world_def log_op_def)
qed

text \<open>
  C10. With two or more positional arguments the program passes the first two to
  \<open>make_arm64_image\<close> and ignores the rest: the load offset is the default 0, a run
  with further arguments is the run with the first two, and the header of the image it
  writes has \<open>text_offset\<close> 0.
\<close>

theorem command_line_load_offset_is_zero:
  assumes "3 \<le> length argv"
  shows "main argv w =
      (case make_arm64_image (argv ! 1) (argv ! 2) 0 w of
         (Inl e, w') \<Rightarrow> (Uncaught e, w')
       | (Inr u, w') \<Rightarrow> (Exit 0, w')) \<and>
    main argv w = main (take 3 argv) w \<and>
    (fst (main argv w) = Exit 0 \<longrightarrow>
       (\<exists>image hd.
          files (snd (main argv w)) (argv ! 2) = Some image \<and>
          decode_header (take 64 image) = Some hd \<and>
          hdr_text_offset hd = 0))"
proof (intro conjI impI)
  show "main argv w =
      (case make_arm64_image (argv ! 1) (argv ! 2) 0 w of
         (Inl e, w') \<Rightarrow> (Uncaught e, w')
       | (Inr u, w') \<Rightarrow> (Exit 0, w'))"
    using assms by (rule main_runs_make_arm64_image)
  show "main argv w = main (take 3 argv) w"
    using assms by (simp add: main_def)
  assume "fst (main argv w) = Exit 0"
  with assms have ok: "fst (make_arm64_image (argv ! 1) (argv ! 2) 0 w) = Inr ()"
    by (simp add: main_Exit_0)
  then obtain P where rd: "fst (read_file (argv ! 1) w) = Inr P"
    by (auto simp add: make_arm64_image_succeeds_iff read_file_Inr_iff)
  from ok rd obtain header where
    h: "struct_pack header_fmt
      [0x14000010, 0, 0, int (length P) + 64, 0, 0, 0, 0, 0x644d5241] = Inr header"
    and len: "length header = 64"
    and run: "make_arm64_image (argv ! 1) (argv ! 2) 0 w =
           (Inr (), converted (argv ! 1) (argv ! 2) 0 header P w)"
    by (rule make_arm64_image_success)
  from decode_header_pack [OF h] run len main_world [OF assms, of w]
  show "\<exists>image hd.
          files (snd (main argv w)) (argv ! 2) = Some image \<and>
          decode_header (take 64 image) = Some hd \<and>
          hdr_text_offset hd = 0"
    by simp
qed

text \<open>A third positional argument, meant as a load offset, changes nothing.\<close>

theorem command_line_load_offset_is_zero_witness:
  "3 \<le> length [''make_image.py'', ''kernel.bin'', ''kernel.img'', ''0x80000''] \<and>
   main [''make_image.py'', ''kernel.bin'', ''kernel.img'', ''0x80000''] example_world =
     main [''make_image.py'', ''kernel.bin'', ''kernel.img''] example_world \<and>
   fst (main [''make_image.py'', ''kernel.bin'', ''kernel.img'', ''0x80000''] example_world) =
     Exit 0 \<and>
   (\<exists>image hd.
      files (snd (main [''make_image.py'', ''kernel.bin'', ''kernel.img'', ''0x80000'']
        example_world)) ''kernel.img'' = Some image \<and>
      decode_header (take 64 image) = Some hd \<and>
      hdr_text_offset hd = 0)"
proof -
  have len: "3 \<le> length [''make_image.py'', ''kernel.bin'', ''kernel.img'', ''0x80000'']"
    by simp
  from example_run_0_ok have ok:
    "fst (main [''make_image.py'', ''kernel.bin'', ''kernel.img'', ''0x80000''] example_world) =
       Exit 0"
    by (simp add: main_Exit_0)
  note run = command_line_load_offset_is_zero [OF len, of example_world]
  from run [THEN conjunct2, THEN conjunct1]
  have same: "main [''make_image.py'', ''kernel.bin'', ''kernel.img'', ''0x80000''] example_world =
     main [''make_image.py'', ''kernel.bin'', ''kernel.img''] example_world"
    by simp
  from run [THEN conjunct2, THEN conjunct2] ok
  have "\<exists>image hd.
      files (snd (main [''make_image.py'', ''kernel.bin'', ''kernel.img'', ''0x80000'']
        example_world)) ''kernel.img'' = Some image \<and>
      decode_header (take 64 image) = Some hd \<and>
      hdr_text_offset hd = 0"
    by simp
  with len same ok show ?thesis by blast
qed

end
